theory Spec2Isabelle
  imports Main
begin

section \<open>The document object model behind \<open>generate_docs.py\<close>\<close>

text \<open>
  The generator drives the document-authoring library through five calls:
  \<open>Document()\<close>, \<open>document.add_heading\<close>, \<open>document.add_paragraph\<close>,
  \<open>paragraph.add_run\<close> and \<open>document.save\<close>, and through the attributes
  \<open>run.bold\<close>, \<open>run.italic\<close> and \<open>paragraph.alignment\<close>. The library's objects are
  modelled by records. A document is the ordered sequence of its body paragraphs; a
  heading is a paragraph in the style \<open>Title\<close> or \<open>Heading n\<close>, a list item a paragraph in
  the style \<open>List Bullet\<close> or \<open>List Number\<close>. The attributes \<open>bold\<close>, \<open>italic\<close> and
  \<open>alignment\<close> are tri-state in the library: \<open>None\<close> means "not set, inherited".
  A Python string is modelled by the list of its characters, for code points below 256.
\<close>

datatype WD_ALIGN_PARAGRAPH = LEFT | CENTER | RIGHT | JUSTIFY

record run =
  run_text :: string
  run_bold :: "bool option"
  run_italic :: "bool option"

record docx_paragraph =
  par_runs :: "run list"
  par_style :: "string option"
  par_alignment :: "WD_ALIGN_PARAGRAPH option"

record document =
  paragraphs :: "docx_paragraph list"

datatype error =
  SystemExit string
| ValueError
| OSError string


text \<open>
  Python hands out references to the paragraph and to the run it has just created, and
  the generator mutates the objects through them. A paragraph reference is the position
  of the paragraph in the document, a run reference the paragraph's position paired with
  the position of the run in the paragraph.
\<close>

type_synonym paragraph_ref = nat
type_synonym run_ref = "nat \<times> nat"

definition Document :: document where
  "Document = \<lparr>paragraphs = []\<rparr>"

text \<open>
  Text handed to the library is stored as XML. A control character (a code point below
  32) other than tab, line feed and carriage return cannot be stored: setting the text
  of a run raises \<open>ValueError\<close>. Tab, line feed and carriage return are stored as tab and
  line-break elements, and a line break reads back as a line feed: the text of the run
  is the text given with every carriage return turned into a line feed.
\<close>

definition xml_compatible :: "string \<Rightarrow> bool" where
  "xml_compatible txt =
     list_all (\<lambda>c. (32::nat) \<le> of_char c \<or> c = CHR 0x09 \<or> c = CHR 0x0A \<or> c = CHR 0x0D) txt"

definition written_text :: "string \<Rightarrow> string" where
  "written_text txt = map (\<lambda>c. if c = CHR 0x0D then CHR 0x0A else c) txt"

definition new_run :: "string \<Rightarrow> run" where
  "new_run txt = \<lparr>run_text = txt, run_bold = None, run_italic = None\<rparr>"

definition empty_paragraph :: docx_paragraph where
  "empty_paragraph = \<lparr>par_runs = [], par_style = None, par_alignment = None\<rparr>"

text \<open>
  Updates through a reference. A reference handed out by the library always points into
  the document; for any other position the update leaves the document unchanged.
\<close>

definition update_paragraph ::
  "document \<Rightarrow> paragraph_ref \<Rightarrow> (docx_paragraph \<Rightarrow> docx_paragraph) \<Rightarrow> document" where
  "update_paragraph d p f =
     (if p < length (paragraphs d)
      then d\<lparr>paragraphs := (paragraphs d)[p := f (paragraphs d ! p)]\<rparr>
      else d)"

definition update_run :: "document \<Rightarrow> run_ref \<Rightarrow> (run \<Rightarrow> run) \<Rightarrow> document" where
  "update_run d r f =
     update_paragraph d (fst r)
       (\<lambda>q. if snd r < length (par_runs q)
            then q\<lparr>par_runs := (par_runs q)[snd r := f (par_runs q ! snd r)]\<rparr>
            else q)"

text \<open>
  \<open>paragraph.add_run(text)\<close> appends a run to the paragraph and sets its text, also for
  the empty text; it raises \<open>ValueError\<close> for a text that cannot be stored. An exception
  ends the call that raised it and every call around it: the result is the error alone,
  and the document the exception leaves behind is not looked at again.
\<close>

definition paragraph_add_run ::
  "document \<Rightarrow> paragraph_ref \<Rightarrow> string \<Rightarrow> error + run_ref \<times> document" where
  "paragraph_add_run d p txt =
     (if \<not> xml_compatible txt then Inl ValueError
      else Inr ((p, length (par_runs (paragraphs d ! p))),
                update_paragraph d p
                  (\<lambda>q. q\<lparr>par_runs := par_runs q @ [new_run (written_text txt)]\<rparr>)))"

definition set_bold :: "document \<Rightarrow> run_ref \<Rightarrow> bool \<Rightarrow> document" where
  "set_bold d r b = update_run d r (\<lambda>x. x\<lparr>run_bold := Some b\<rparr>)"

definition set_italic :: "document \<Rightarrow> run_ref \<Rightarrow> bool \<Rightarrow> document" where
  "set_italic d r b = update_run d r (\<lambda>x. x\<lparr>run_italic := Some b\<rparr>)"

definition set_alignment ::
  "document \<Rightarrow> paragraph_ref \<Rightarrow> WD_ALIGN_PARAGRAPH \<Rightarrow> document" where
  "set_alignment d p a = update_paragraph d p (\<lambda>q. q\<lparr>par_alignment := Some a\<rparr>)"

definition set_style :: "document \<Rightarrow> paragraph_ref \<Rightarrow> string \<Rightarrow> document" where
  "set_style d p sty = update_paragraph d p (\<lambda>q. q\<lparr>par_style := Some sty\<rparr>)"

text \<open>
  \<open>document.add_paragraph(text='', style=None)\<close> appends an empty paragraph, adds a run
  holding the text when the text is not empty, then sets the style when one is given,
  and returns the paragraph.
\<close>

definition document_add_paragraph ::
  "document \<Rightarrow> string \<Rightarrow> string option \<Rightarrow> error + paragraph_ref \<times> document" where
  "document_add_paragraph d txt sty =
     (let p = length (paragraphs d);
          d1 = d\<lparr>paragraphs := paragraphs d @ [empty_paragraph]\<rparr>
      in case (if txt = [] then Inr d1
               else (case paragraph_add_run d1 p txt of
                       Inl e \<Rightarrow> Inl e
                     | Inr (r, d2) \<Rightarrow> Inr d2)) of
           Inl e \<Rightarrow> Inl e
         | Inr d2 \<Rightarrow> Inr (p, case sty of None \<Rightarrow> d2 | Some name \<Rightarrow> set_style d2 p name))"

fun decimal :: "nat \<Rightarrow> string" where
  "decimal n =
     (if n < 10 then [''0123456789'' ! n]
      else decimal (n div 10) @ [''0123456789'' ! (n mod 10)])"

declare decimal.simps [simp del]

definition heading_style :: "int \<Rightarrow> string" where
  "heading_style level =
     (if level = 0 then ''Title'' else ''Heading '' @ decimal (nat level))"

text \<open>
  \<open>document.add_heading(text, level)\<close> raises \<open>ValueError\<close> unless the level is between 0
  and 9, and otherwise adds a paragraph in the style of that level.
\<close>

definition document_add_heading ::
  "document \<Rightarrow> string \<Rightarrow> int \<Rightarrow> error + paragraph_ref \<times> document" where
  "document_add_heading d txt level =
     (if \<not> (0 \<le> level \<and> level \<le> 9) then Inl ValueError
      else document_add_paragraph d txt (Some (heading_style level)))"


section \<open>The helpers of the generator\<close>

text \<open>
  \<^verbatim>\<open>
  def add_heading(document, text, level=1):
      document.add_heading(text, level=level)
  \<close>
\<close>

definition add_heading :: "document \<Rightarrow> string \<Rightarrow> int \<Rightarrow> error + document" where
  "add_heading d txt level =
     (case document_add_heading d txt level of
        Inl e \<Rightarrow> Inl e
      | Inr (p, d') \<Rightarrow> Inr d')"

text \<open>
  \<^verbatim>\<open>
  def add_paragraph(document, text, bold=False, italic=False, alignment=None):
      p = document.add_paragraph()
      run = p.add_run(text)
      run.bold = bold
      run.italic = italic
      if alignment == "center":
          p.alignment = WD_ALIGN_PARAGRAPH.CENTER
      elif alignment == "right":
          p.alignment = WD_ALIGN_PARAGRAPH.RIGHT
      return p
  \<close>
  The argument \<open>alignment\<close> is \<open>None\<close> or a string.
\<close>

definition add_paragraph ::
  "document \<Rightarrow> string \<Rightarrow> bool \<Rightarrow> bool \<Rightarrow> string option \<Rightarrow>
     error + paragraph_ref \<times> document" where
  "add_paragraph d0 txt is_bold is_italic alignment =
     (case document_add_paragraph d0 [] None of
        Inl e \<Rightarrow> Inl e
      | Inr (p, d1) \<Rightarrow>
          (case paragraph_add_run d1 p txt of
             Inl e \<Rightarrow> Inl e
           | Inr (r, d2) \<Rightarrow>
               (let d3 = set_bold d2 r is_bold;
                    d4 = set_italic d3 r is_italic;
                    d5 = (if alignment = Some ''center'' then set_alignment d4 p CENTER
                          else if alignment = Some ''right'' then set_alignment d4 p RIGHT
                          else d4)
                in Inr (p, d5))))"

text \<open>
  \<^verbatim>\<open>
  def add_bullets(document, items):
      for item in items:
          document.add_paragraph(item, style="List Bullet")

  def add_numbered(document, items):
      for item in items:
          document.add_paragraph(item, style="List Number")
  \<close>
\<close>

fun add_bullets :: "document \<Rightarrow> string list \<Rightarrow> error + document" where
  "add_bullets d [] = Inr d"
| "add_bullets d (item # items) =
     (case document_add_paragraph d item (Some ''List Bullet'') of
        Inl e \<Rightarrow> Inl e
      | Inr (p, d') \<Rightarrow> add_bullets d' items)"

fun add_numbered :: "document \<Rightarrow> string list \<Rightarrow> error + document" where
  "add_numbered d [] = Inr d"
| "add_numbered d (item # items) =
     (case document_add_paragraph d item (Some ''List Number'') of
        Inl e \<Rightarrow> Inl e
      | Inr (p, d') \<Rightarrow> add_numbered d' items)"

section \<open>The clock and the file system\<close>

text \<open>
  \<open>datetime.now()\<close> reads the clock of the machine. The reading is a field of the world
  the program runs in, next to the files, the directories that can be written to and
  the lines printed so far.
\<close>

record datetime =
  dt_year :: nat
  dt_month :: nat
  dt_day :: nat
  dt_hour :: nat
  dt_minute :: nat
  dt_second :: nat
  dt_microsecond :: nat

definition zero_pad :: "nat \<Rightarrow> string \<Rightarrow> string" where
  "zero_pad width s = replicate (width - length s) CHR ''0'' @ s"

text \<open>
  The directives of \<open>strftime\<close> that the generator uses. \<open>%Y\<close> is the year as at least
  four digits, the others are two digits each; any other directive is copied.
\<close>

definition directive :: "datetime \<Rightarrow> char \<Rightarrow> string" where
  "directive t c =
     (if c = CHR ''Y'' then zero_pad 4 (decimal (dt_year t))
      else if c = CHR ''m'' then zero_pad 2 (decimal (dt_month t))
      else if c = CHR ''d'' then zero_pad 2 (decimal (dt_day t))
      else if c = CHR ''H'' then zero_pad 2 (decimal (dt_hour t))
      else if c = CHR ''M'' then zero_pad 2 (decimal (dt_minute t))
      else [CHR ''%'', c])"

fun strftime :: "datetime \<Rightarrow> string \<Rightarrow> string" where
  "strftime t [] = []"
| "strftime t [a] = [a]"
| "strftime t (a # b # cs) =
     (if a = CHR ''%'' then directive t b @ strftime t cs
      else a # strftime t (b # cs))"

record world =
  files :: "string \<rightharpoonup> document"
  writable :: "string \<Rightarrow> bool"
  stdout :: "string list"
  clock :: datetime

text \<open>
  \<open>document.save(path)\<close> writes the document to the path, replacing what was there, or
  raises \<open>OSError\<close> when the path cannot be written. What is stored under a path is the
  document itself: the packaging into an archive is the library's.
\<close>

definition document_save :: "document \<Rightarrow> string \<Rightarrow> world \<Rightarrow> (error + unit) \<times> world" where
  "document_save d path w =
     (if writable w path then (Inr (), w\<lparr>files := (files w)(path \<mapsto> d)\<rparr>)
      else (Inl (OSError path), w))"

definition print :: "string \<Rightarrow> world \<Rightarrow> (error + unit) \<times> world" where
  "print line w = (Inr (), w\<lparr>stdout := stdout w @ [line]\<rparr>)"

text \<open>
  \<open>os.path.dirname\<close> and \<open>os.path.join\<close> (of two components) on POSIX paths:
  \<^verbatim>\<open>
  def dirname(p):                      def join(a, b):
      i = p.rfind('/') + 1                 if b.startswith('/'): path = b
      head = p[:i]                         elif not a or a.endswith('/'): path = a + b
      if head and head != '/'*len(head):   else: path = a + '/' + b
          head = head.rstrip('/')          return path
      return head
  \<close>
  \<open>p[:p.rfind('/') + 1]\<close> is \<open>p\<close> without the characters after its last slash, and
  \<open>head.rstrip('/')\<close> is \<open>head\<close> without the slashes at its end.
\<close>

definition up_to_last_slash :: "string \<Rightarrow> string" where
  "up_to_last_slash p = rev (dropWhile (\<lambda>c. c \<noteq> CHR ''/'') (rev p))"

definition rstrip_slashes :: "string \<Rightarrow> string" where
  "rstrip_slashes p = rev (dropWhile (\<lambda>c. c = CHR ''/'') (rev p))"

definition os_path_dirname :: "string \<Rightarrow> string" where
  "os_path_dirname p =
     (let head = up_to_last_slash p
      in if head \<noteq> [] \<and> head \<noteq> replicate (length head) CHR ''/''
         then rstrip_slashes head
         else head)"

definition os_path_join :: "string \<Rightarrow> string \<Rightarrow> string" where
  "os_path_join a b =
     (if take 1 b = ''/'' then b
      else if a = [] \<or> last a = CHR ''/'' then a @ b
      else a @ ''/'' @ b)"

definition os_path_isabs :: "string \<Rightarrow> bool" where
  "os_path_isabs p = (take 1 p = ''/'')"

definition os_path_basename :: "string \<Rightarrow> string" where
  "os_path_basename p = rev (takeWhile (\<lambda>c. c \<noteq> CHR ''/'') (rev p))"


section \<open>The generator\<close>

text \<open>
  The body of \<open>generate_doc\<close> is a straight sequence of calls on one document: calls of
  the four helpers and direct calls of \<open>document.add_paragraph\<close> with a style. A
  statement names the call and its arguments, with the defaults of the helper written
  out; running it is the call itself. A statement either raises or hands the document
  on, and the sequence stops at the first statement that raises.
\<close>

datatype statement =
  Add_heading string int
| Add_paragraph string bool bool "string option"
| Add_bullets "string list"
| Add_numbered "string list"
| Document_add_paragraph string "string option"

fun run_statement :: "statement \<Rightarrow> document \<Rightarrow> error + document" where
  "run_statement (Add_heading txt level) d = add_heading d txt level"
| "run_statement (Add_paragraph txt is_bold is_italic alignment) d =
     (case add_paragraph d txt is_bold is_italic alignment of
        Inl e \<Rightarrow> Inl e
      | Inr (p, d') \<Rightarrow> Inr d')"
| "run_statement (Add_bullets items) d = add_bullets d items"
| "run_statement (Add_numbered items) d = add_numbered d items"
| "run_statement (Document_add_paragraph txt sty) d =
     (case document_add_paragraph d txt sty of
        Inl e \<Rightarrow> Inl e
      | Inr (p, d') \<Rightarrow> Inr d')"

fun exec :: "statement list \<Rightarrow> document \<Rightarrow> error + document" where
  "exec [] d = Inr d"
| "exec (s # ss) d =
     (case run_statement s d of Inl e \<Rightarrow> Inl e | Inr d' \<Rightarrow> exec ss d')"

text \<open>
  The statements of \<open>generate_doc\<close> between \<open>document = Document()\<close> and
  \<open>document.save(output_path)\<close>, in the order of the source. \<open>now\<close> is the reading of
  the clock that \<open>datetime.now()\<close> returns.
\<close>

definition generate_doc_statements :: "datetime \<Rightarrow> statement list" where
  "generate_doc_statements now =
     [Add_heading ''Segment Anything Model (SAM) - Project Documentation'' 0,
      Add_paragraph (''Generated: '' @ strftime now ''%Y-%m-%d %H:%M'') False True None,
      Add_paragraph ''Audience: Project Manager, Software Engineer'' False True None,
      Add_heading ''1. Executive Summary'' 1,
      Add_paragraph (''This project integrates Meta AI's Segment Anything Model (SAM) to enable fast, flexible ''
           @ ''image segmentation. It includes a Python backend library and a TypeScript demo UI for ''
           @ ''interactive segmentation and ONNX inference.'') False False None,
      Add_bullets
         [''Outcome: Generate high-quality object masks from images with minimal prompts'',
          ''Deliverables: Python package, demo web app, example notebooks, output masks'',
          ''Stakeholders: PM, ML/Software Engineers'',
          ''Status: Ready for local runs and demonstrations''],
      Add_heading ''2. Scope & Objectives'' 1,
      Add_bullets
         [''Integrate SAM core components for promptable segmentation'',
          ''Provide automatic mask generation utility'',
          ''Export model to ONNX and demo browser inference'',
          ''Offer notebooks for common usage patterns''],
      Add_heading ''3. Architecture Overview'' 1,
      Add_paragraph ''High-level components:'' False False None,
      Add_numbered
         [''Python package (`segment_anything/`): model, encoders, decoders, utilities'',
          ''Scripts (`scripts/`): automatic mask generator, ONNX export'',
          ''Notebooks (`notebooks/`): runnable examples'',
          ''Web demo (`segment-anything/demo/`): React + TypeScript UI'',
          ''Artifacts (`output_dir/`): generated masks and overlays''],
      Add_heading ''4. Key Directories & Files'' 1,
      Add_bullets
         [''segment_anything/modeling/sam.py: SAM model assembly'',
          ''segment_anything/predictor.py: High-level predictor API'',
          ''segment_anything/automatic_mask_generator.py: Batch/auto mask generation'',
          ''segment_anything/utils/onnx.py: ONNX export helpers'',
          ''scripts/amg.py: CLI for automatic mask generation'',
          ''scripts/export_onnx_model.py: Export to ONNX'',
          ''segment-anything/demo/src: Frontend demo application'',
          ''output_dir/mask/*.png: Generated masks'',
          ''output_dir/mask_overlay.png: Composite overlay''],
      Add_heading ''5. Setup & Installation'' 1,
      Add_paragraph ''Prerequisites:'' False False None,
      Add_bullets
         [''Python 3.9+ with pip'',
          ''Node.js 16+ (for web demo)'',
          ''GPU optional; CPU works for demos (slower)''],
      Add_paragraph ''Python package install:'' False False None,
      Document_add_paragraph ''pip install -e .'' (Some ''Intense Quote''),
      Add_paragraph ''Optional extras: PyTorch, onnxruntime, onnxruntime-gpu depending on environment.'' False False None,
      Add_heading ''6. Usage - Python'' 1,
      Add_paragraph ''Predictor example (points, boxes, masks): see `notebooks/predictor_example.ipynb`.'' False False None,
      Add_paragraph ''Automatic mask generation:'' False False None,
      Document_add_paragraph ''python scripts/amg.py --input <image_or_folder> --output output_dir/'' (Some ''Intense Quote''),
      Add_heading ''7. ONNX & Web Demo'' 1,
      Add_paragraph ''Export ONNX model:'' False False None,
      Document_add_paragraph ''python scripts/export_onnx_model.py --checkpoint <path_to_ckpt> --output sam.onnx'' (Some ''Intense Quote''),
      Add_paragraph ''Run demo app:'' False False None,
      Document_add_paragraph ''cd segment-anything/demo && npm ci && npm run dev'' (Some ''Intense Quote''),
      Add_heading ''8. Data Flow'' 1,
      Add_bullets
         [''Input image loaded and preprocessed (transforms)'',
          ''Prompt encoding (points/boxes/masks)'',
          ''Image encoding via vision transformer'',
          ''Mask decoding conditioned on prompts'',
          ''Post-processing and thresholding to produce binary masks''],
      Add_heading ''9. Quality, Performance, and Risks'' 1,
      Add_bullets
         [''Deterministic inference given fixed prompts'',
          ''Performance depends on model size and hardware'',
          ''Memory use may be high for large images'',
          ''ONNX runtime on CPU may be slow; prefer GPU if available''],
      Add_heading ''10. Roadmap & Next Steps'' 1,
      Add_bullets
         [''Add CLI for promptable single-image segmentation'',
          ''Dockerize demo and backend for easier deployment'',
          ''Provide evaluation scripts and metrics'',
          ''Integrate continuous testing and linting in CI''],
      Add_heading ''Appendix A: References'' 1,
      Add_bullets
         [''README.md for overall guidance'',
          ''Notebooks for hands-on examples'',
          ''Demo `README.md` for web UI'']]"

definition generate_doc :: "string \<Rightarrow> world \<Rightarrow> (error + unit) \<times> world" where
  "generate_doc output_path w =
     (case exec (generate_doc_statements (clock w)) Document of
        Inl e \<Rightarrow> (Inl e, w)
      | Inr d \<Rightarrow> document_save d output_path w)"


section \<open>The module\<close>

text \<open>
  \<^verbatim>\<open>
  try:
      from docx import Document
      ...
  except Exception as exc:
      raise SystemExit("Missing dependency 'python-docx'. ...") from exc

  OUTPUT_NAME = "SAM_Project_Documentation.docx"
  ...
  if __name__ == "__main__":
      out_path = os.path.join(os.path.dirname(__file__), OUTPUT_NAME)
      generate_doc(out_path)
      print(f"Wrote documentation to: {out_path}")
  \<close>
  Running the module depends on whether the imports of the library succeed or raise an
  exception, and on the values of \<open>__name__\<close> and \<open>__file__\<close>.
\<close>

datatype import_result = Imported | Import_Raises

definition OUTPUT_NAME :: string where
  "OUTPUT_NAME = ''SAM_Project_Documentation.docx''"

definition out_path :: "string \<Rightarrow> string" where
  "out_path file = os_path_join (os_path_dirname file) OUTPUT_NAME"

definition main_block :: "string \<Rightarrow> world \<Rightarrow> (error + unit) \<times> world" where
  "main_block file w =
     (case generate_doc (out_path file) w of
        (Inl e, w') \<Rightarrow> (Inl e, w')
      | (Inr u, w') \<Rightarrow> print (''Wrote documentation to: '' @ out_path file) w')"

definition run_module ::
  "import_result \<Rightarrow> string \<Rightarrow> string \<Rightarrow> world \<Rightarrow> (error + unit) \<times> world" where
  "run_module docx name file w =
     (if docx = Import_Raises
      then (Inl (SystemExit
              ''Missing dependency 'python-docx'. Please install it: pip install python-docx''), w)
      else if name = ''__main__'' then main_block file w
      else (Inr (), w))"


section \<open>Reading a document\<close>

text \<open>
  The text of a paragraph is the text of its runs, in order. A paragraph is a heading of
  level \<open>n\<close> when its style is the one \<open>document.add_heading\<close> gives to level \<open>n\<close>.
\<close>

definition paragraph_text :: "docx_paragraph \<Rightarrow> string" where
  "paragraph_text q = concat (map run_text (par_runs q))"

definition heading_level :: "docx_paragraph \<Rightarrow> int option" where
  "heading_level q =
     (case par_style q of
        None \<Rightarrow> None
      | Some sty \<Rightarrow> find (\<lambda>level. heading_style level = sty) [0, 1, 2, 3, 4, 5, 6, 7, 8, 9])"

definition headings :: "document \<Rightarrow> (string \<times> int) list" where
  "headings d =
     List.map_filter (\<lambda>q. map_option (Pair (paragraph_text q)) (heading_level q))
       (paragraphs d)"


text \<open>
  The document as a sequence of content blocks: a heading, a plain paragraph, a bulleted
  or a numbered list (a maximal run of neighbouring paragraphs in the list style) or a
  paragraph in some other named style.
\<close>

datatype block =
  Heading string int
| Paragraph "run list" "WD_ALIGN_PARAGRAPH option"
| BulletList "string list"
| NumberedList "string list"
| StyledBlock string string

definition block_of :: "docx_paragraph \<Rightarrow> block" where
  "block_of q =
     (case heading_level q of
        Some level \<Rightarrow> Heading (paragraph_text q) level
      | None \<Rightarrow>
          if par_style q = Some ''List Bullet'' then BulletList [paragraph_text q]
          else if par_style q = Some ''List Number'' then NumberedList [paragraph_text q]
          else (case par_style q of
                  Some sty \<Rightarrow> StyledBlock (paragraph_text q) sty
                | None \<Rightarrow> Paragraph (par_runs q) (par_alignment q)))"

fun join_block :: "block \<Rightarrow> block list \<Rightarrow> block list" where
  "join_block (BulletList xs) (BulletList ys # bs) = BulletList (xs @ ys) # bs"
| "join_block (NumberedList xs) (NumberedList ys # bs) = NumberedList (xs @ ys) # bs"
| "join_block b bs = b # bs"

definition blocks :: "document \<Rightarrow> block list" where
  "blocks d = foldr join_block (map block_of (paragraphs d)) []"

fun is_heading :: "block \<Rightarrow> bool" where
  "is_heading (Heading txt level) = True"
| "is_heading b = False"

fun is_list :: "block \<Rightarrow> bool" where
  "is_list (BulletList items) = True"
| "is_list (NumberedList items) = True"
| "is_list b = False"

text \<open>The blocks between the level-1 heading with the given text and the next heading.\<close>

definition section_blocks :: "string \<Rightarrow> block list \<Rightarrow> block list" where
  "section_blocks title bs =
     takeWhile (\<lambda>b. \<not> is_heading b) (drop 1 (dropWhile (\<lambda>b. b \<noteq> Heading title 1) bs))"

text \<open>The item lists that the generator passes to \<open>add_bullets\<close> and \<open>add_numbered\<close>.\<close>

fun list_argument :: "statement \<Rightarrow> block option" where
  "list_argument (Add_bullets items) = Some (BulletList items)"
| "list_argument (Add_numbered items) = Some (NumberedList items)"
| "list_argument s = None"

text \<open>The document that a successful run of \<open>generate_doc\<close> leaves under its path.\<close>

definition written_document :: "string \<Rightarrow> world \<Rightarrow> document option" where
  "written_document output_path w =
     (case generate_doc output_path w of
        (Inl e, w') \<Rightarrow> None
      | (Inr u, w') \<Rightarrow> files w' output_path)"

text \<open>
  A text is plain when it has no control character at all: the library stores it and
  reads it back unchanged. \<open>new_paragraph\<close> is the paragraph that
  \<open>document.add_paragraph\<close> appends for a plain text. A statement is plain when its
  texts are and its heading level is one the library has; \<open>appended\<close> is what a plain
  statement appends. Both are used to run the generator one statement at a time.
\<close>

definition plain :: "string \<Rightarrow> bool" where
  "plain txt = list_all (\<lambda>c. (32::nat) \<le> of_char c) txt"

definition new_paragraph :: "string \<Rightarrow> string option \<Rightarrow> docx_paragraph" where
  "new_paragraph txt sty =
     \<lparr>par_runs = (if txt = [] then [] else [new_run txt]),
      par_style = sty, par_alignment = None\<rparr>"

fun appended :: "statement \<Rightarrow> docx_paragraph list" where
  "appended (Add_heading txt level) = [new_paragraph txt (Some (heading_style level))]"
| "appended (Add_paragraph txt is_bold is_italic alignment) =
     [\<lparr>par_runs = [\<lparr>run_text = txt, run_bold = Some is_bold, run_italic = Some is_italic\<rparr>],
       par_style = None,
       par_alignment = (if alignment = Some ''center'' then Some CENTER
                        else if alignment = Some ''right'' then Some RIGHT else None)\<rparr>]"
| "appended (Add_bullets items) =
     map (\<lambda>item. new_paragraph item (Some ''List Bullet'')) items"
| "appended (Add_numbered items) =
     map (\<lambda>item. new_paragraph item (Some ''List Number'')) items"
| "appended (Document_add_paragraph txt sty) = [new_paragraph txt sty]"

fun plain_statement :: "statement \<Rightarrow> bool" where
  "plain_statement (Add_heading txt level) = (0 \<le> level \<and> level \<le> 9 \<and> plain txt)"
| "plain_statement (Add_paragraph txt is_bold is_italic alignment) = plain txt"
| "plain_statement (Add_bullets items) = list_all plain items"
| "plain_statement (Add_numbered items) = list_all plain items"
| "plain_statement (Document_add_paragraph txt sty) = plain txt"

definition generated_paragraphs :: "datetime \<Rightarrow> docx_paragraph list" where
  "generated_paragraphs now = concat (map appended (generate_doc_statements now))"

text \<open>Inputs for the examples.\<close>

definition example_clock :: datetime where
  "example_clock =
     \<lparr>dt_year = 2025, dt_month = 3, dt_day = 9, dt_hour = 14, dt_minute = 5,
      dt_second = 30, dt_microsecond = 0\<rparr>"

definition later_clock :: datetime where
  "later_clock = example_clock\<lparr>dt_minute := 6\<rparr>"

definition example_world :: world where
  "example_world =
     \<lparr>files = Map.empty, writable = (\<lambda>path. True), stdout = [], clock = example_clock\<rparr>"

definition later_world :: world where
  "later_world = example_world\<lparr>clock := later_clock\<rparr>"


section \<open>The helpers\<close>

lemma of_char_ge_32:
  "((32::nat) \<le> of_char (Char b0 b1 b2 b3 b4 b5 b6 b7)) = (b5 \<or> b6 \<or> b7)"
  by (cases b0; cases b1; cases b2; cases b3; cases b4; cases b5; cases b6; cases b7)
     simp_all

lemma plain_simps:
  "plain [] = True"
  "plain (Char b0 b1 b2 b3 b4 b5 b6 b7 # cs) = ((b5 \<or> b6 \<or> b7) \<and> plain cs)"
  by (simp_all add: plain_def of_char_ge_32)

lemma plain_append: "plain (xs @ ys) = (plain xs \<and> plain ys)"
  by (simp add: plain_def)

lemma plain_xml_compatible: "plain txt \<Longrightarrow> xml_compatible txt"
  by (induction "txt") (auto simp add: plain_def xml_compatible_def)

lemma plain_written_text: "plain txt \<Longrightarrow> written_text txt = txt"
  by (induction "txt") (auto simp add: plain_def written_text_def)


lemma written_text_eq_Nil: "(written_text txt = []) = (txt = [])"
  by (simp add: written_text_def)

lemma document_add_paragraph_eq:
  "document_add_paragraph d txt sty =
     (if xml_compatible txt
      then Inr (length (paragraphs d),
                d\<lparr>paragraphs := paragraphs d @ [new_paragraph (written_text txt) sty]\<rparr>)
      else Inl ValueError)"
proof (cases "txt = []")
  case True
  then show ?thesis
    by (cases sty)
       (simp_all add: document_add_paragraph_def Let_def xml_compatible_def written_text_def
          new_paragraph_def empty_paragraph_def set_style_def update_paragraph_def nth_append)
next
  case False
  then show ?thesis
    by (cases sty)
       (simp_all add: document_add_paragraph_def Let_def paragraph_add_run_def
          written_text_eq_Nil new_paragraph_def empty_paragraph_def set_style_def
          update_paragraph_def nth_append)
qed

lemma add_paragraph_eq:
  "add_paragraph d txt b i a =
     (if xml_compatible txt
      then Inr (length (paragraphs d),
                d\<lparr>paragraphs := paragraphs d @
                  [\<lparr>par_runs = [\<lparr>run_text = written_text txt, run_bold = Some b,
                                  run_italic = Some i\<rparr>],
                    par_style = None,
                    par_alignment = (if a = Some ''center'' then Some CENTER
                                     else if a = Some ''right'' then Some RIGHT else None)\<rparr>]\<rparr>)
      else Inl ValueError)"
  by (simp add: add_paragraph_def document_add_paragraph_eq xml_compatible_def [of "[]"]
      written_text_def [of "[]"] paragraph_add_run_def set_bold_def set_italic_def
      set_alignment_def update_run_def update_paragraph_def new_run_def new_paragraph_def
      nth_append Let_def)

lemma add_bullets_eq:
  "add_bullets d items =
     (if list_all xml_compatible items
      then Inr (d\<lparr>paragraphs := paragraphs d @
             map (\<lambda>item. new_paragraph (written_text item) (Some ''List Bullet'')) items\<rparr>)
      else Inl ValueError)"
  by (induction items arbitrary: d) (simp_all add: document_add_paragraph_eq)

lemma add_numbered_eq:
  "add_numbered d items =
     (if list_all xml_compatible items
      then Inr (d\<lparr>paragraphs := paragraphs d @
             map (\<lambda>item. new_paragraph (written_text item) (Some ''List Number'')) items\<rparr>)
      else Inl ValueError)"
  by (induction items arbitrary: d) (simp_all add: document_add_paragraph_eq)










text \<open>
  C8. For every document, \<open>add_bullets\<close> and \<open>add_numbered\<close> with an empty list of items
  return and leave the document as it is.
\<close>

theorem add_bullets_add_numbered_empty:
  "add_bullets d [] = Inr d \<and> add_numbered d [] = Inr d"
  by simp





section \<open>Running the generator\<close>

text \<open>
  Every statement of the generator is plain: its texts are literals without control
  characters, or the formatted reading of the clock. So no statement raises, and the
  document the generator builds is the empty document followed by what each statement
  appends.
\<close>

lemma plain_decimal: "plain (decimal n)"
proof (induction n rule: decimal.induct)
  case (1 n)
  have digit: "\<And>k. k < 10 \<Longrightarrow> plain [''0123456789'' ! k]"
  proof -
    fix k :: nat
    assume "k < 10"
    then have "k \<in> {0, 1, 2, 3, 4, 5, 6, 7, 8, 9}"
      by auto
    then show "plain [''0123456789'' ! k]"
      by (auto simp add: plain_simps)
  qed
  show ?case
  proof (cases "n < 10")
    case True
    then show ?thesis
      using digit [of n] by (simp add: decimal.simps [of n])
  next
    case False
    then show ?thesis
      using "1.IH" digit [of "n mod 10"]
      by (simp add: decimal.simps [of n] plain_append)
  qed
qed

lemma plain_zeros: "plain (replicate k CHR ''0'')"
  by (induction k) (simp_all add: plain_simps)

lemma plain_zero_pad: "plain (zero_pad width (decimal n))"
  by (simp add: zero_pad_def plain_append plain_decimal plain_zeros)

lemma plain_directive:
  "plain (directive t CHR ''Y'')" "plain (directive t CHR ''m'')"
  "plain (directive t CHR ''d'')" "plain (directive t CHR ''H'')"
  "plain (directive t CHR ''M'')"
  by (simp_all add: directive_def plain_zero_pad)

lemma run_statement_appends:
  assumes "plain_statement s"
  shows "run_statement s d = Inr (d\<lparr>paragraphs := paragraphs d @ appended s\<rparr>)"
proof (cases s)
  case (Add_heading t level)
  with assms show ?thesis
    by (simp add: add_heading_def document_add_heading_def document_add_paragraph_eq
        plain_xml_compatible plain_written_text)
next
  case (Add_paragraph t b i a)
  with assms show ?thesis
    by (simp add: add_paragraph_eq plain_xml_compatible plain_written_text)
next
  case (Add_bullets items)
  with assms have "list_all xml_compatible items"
    and "map (\<lambda>item. new_paragraph (written_text item) (Some ''List Bullet'')) items
           = map (\<lambda>item. new_paragraph item (Some ''List Bullet'')) items"
    by (auto simp add: list_all_iff plain_xml_compatible plain_written_text)
  with Add_bullets show ?thesis
    by (simp add: add_bullets_eq)
next
  case (Add_numbered items)
  with assms have "list_all xml_compatible items"
    and "map (\<lambda>item. new_paragraph (written_text item) (Some ''List Number'')) items
           = map (\<lambda>item. new_paragraph item (Some ''List Number'')) items"
    by (auto simp add: list_all_iff plain_xml_compatible plain_written_text)
  with Add_numbered show ?thesis
    by (simp add: add_numbered_eq)
next
  case (Document_add_paragraph t sty)
  with assms show ?thesis
    by (simp add: document_add_paragraph_eq plain_xml_compatible plain_written_text)
qed

lemma exec_appends:
  "list_all plain_statement ss \<Longrightarrow>
     exec ss d = Inr (d\<lparr>paragraphs := paragraphs d @ concat (map appended ss)\<rparr>)"
  by (induction ss arbitrary: d) (simp_all add: run_statement_appends)

lemma generate_doc_statements_plain:
  "list_all plain_statement (generate_doc_statements now)"
  by (simp add: generate_doc_statements_def plain_simps plain_append plain_directive)

lemma exec_generate_doc_statements:
  "exec (generate_doc_statements now) Document = Inr \<lparr>paragraphs = generated_paragraphs now\<rparr>"
  using exec_appends [OF generate_doc_statements_plain, of now Document]
  by (simp add: Document_def generated_paragraphs_def)

lemma generate_doc_eq:
  "generate_doc output_path w =
     (if writable w output_path
      then (Inr (), w\<lparr>files := (files w)(output_path \<mapsto>
                         \<lparr>paragraphs = generated_paragraphs (clock w)\<rparr>)\<rparr>)
      else (Inl (OSError output_path), w))"
  by (simp add: generate_doc_def exec_generate_doc_statements document_save_def)

lemma written_document_eq:
  "written_document output_path w =
     (if writable w output_path
      then Some \<lparr>paragraphs = generated_paragraphs (clock w)\<rparr> else None)"
  by (simp add: written_document_def generate_doc_eq)

lemma heading_style_simps:
  "heading_style 0 = ''Title''" "heading_style 1 = ''Heading 1''"
  "heading_style 2 = ''Heading 2''" "heading_style 3 = ''Heading 3''"
  "heading_style 4 = ''Heading 4''" "heading_style 5 = ''Heading 5''"
  "heading_style 6 = ''Heading 6''" "heading_style 7 = ''Heading 7''"
  "heading_style 8 = ''Heading 8''" "heading_style 9 = ''Heading 9''"
  by (simp_all add: heading_style_def decimal.simps)

lemmas reading_simps = heading_level_def paragraph_text_def
  new_paragraph_def new_run_def heading_style_simps
  generated_paragraphs_def generate_doc_statements_def

lemma list_blocks_generated:
  "filter is_list (blocks \<lparr>paragraphs = generated_paragraphs now\<rparr>)
     = List.map_filter list_argument (generate_doc_statements now)"
  by (simp add: blocks_def block_of_def reading_simps)

lemma scope_generated:
  "section_blocks ''2. Scope & Objectives'' (blocks \<lparr>paragraphs = generated_paragraphs now\<rparr>)
     = [BulletList
          [''Integrate SAM core components for promptable segmentation'',
           ''Provide automatic mask generation utility'',
           ''Export model to ONNX and demo browser inference'',
           ''Offer notebooks for common usage patterns'']]"
  by (simp add: section_blocks_def blocks_def block_of_def reading_simps)

lemma generated_paragraphs_update:
  "generated_paragraphs now =
     (generated_paragraphs now')
       [1 := \<lparr>par_runs = [\<lparr>run_text = ''Generated: '' @ strftime now ''%Y-%m-%d %H:%M'',
                            run_bold = Some False, run_italic = Some True\<rparr>],
               par_style = None, par_alignment = None\<rparr>]"
  by (simp add: generated_paragraphs_def generate_doc_statements_def)

lemma length_generated_paragraphs: "length (generated_paragraphs now) = 68"
  by (simp add: generated_paragraphs_def generate_doc_statements_def)

lemma generated_paragraphs_nth_1:
  "generated_paragraphs now ! 1 =
     \<lparr>par_runs = [\<lparr>run_text = ''Generated: '' @ strftime now ''%Y-%m-%d %H:%M'',
                    run_bold = Some False, run_italic = Some True\<rparr>],
      par_style = None, par_alignment = None\<rparr>"
  by (simp add: generated_paragraphs_def generate_doc_statements_def)

lemma strftime_example_clock:
  "strftime example_clock ''%Y-%m-%d %H:%M'' = ''2025-03-09 14:05''"
  by (simp add: directive_def zero_pad_def decimal.simps example_clock_def)

lemma strftime_later_clock:
  "strftime later_clock ''%Y-%m-%d %H:%M'' = ''2025-03-09 14:06''"
  by (simp add: directive_def zero_pad_def decimal.simps example_clock_def later_clock_def)

lemma headings_generated:
  "headings \<lparr>paragraphs = generated_paragraphs now\<rparr> =
     [(''Segment Anything Model (SAM) - Project Documentation'', 0),
      (''1. Executive Summary'', 1),
      (''2. Scope & Objectives'', 1),
      (''3. Architecture Overview'', 1),
      (''4. Key Directories & Files'', 1),
      (''5. Setup & Installation'', 1),
      (''6. Usage - Python'', 1),
      (''7. ONNX & Web Demo'', 1),
      (''8. Data Flow'', 1),
      (''9. Quality, Performance, and Risks'', 1),
      (''10. Roadmap & Next Steps'', 1),
      (''Appendix A: References'', 1)]"
  by (simp add: headings_def reading_simps)

text \<open>
  C1. For every successful run of \<open>generate_doc\<close>, the written document has exactly one
  title-level (level-0) heading followed by exactly eleven level-1 headings, in the
  order of the generator: the title, Executive Summary, Scope and Objectives,
  Architecture Overview, Key Directories, Setup and Installation, Usage (Python), ONNX
  and Web Demo, Data Flow, Quality/Performance/Risks, Roadmap, Appendix.
\<close>

theorem generate_doc_headings:
  assumes "written_document output_path w = Some d"
  shows "headings d =
     [(''Segment Anything Model (SAM) - Project Documentation'', 0),
      (''1. Executive Summary'', 1),
      (''2. Scope & Objectives'', 1),
      (''3. Architecture Overview'', 1),
      (''4. Key Directories & Files'', 1),
      (''5. Setup & Installation'', 1),
      (''6. Usage - Python'', 1),
      (''7. ONNX & Web Demo'', 1),
      (''8. Data Flow'', 1),
      (''9. Quality, Performance, and Risks'', 1),
      (''10. Roadmap & Next Steps'', 1),
      (''Appendix A: References'', 1)]"
proof -
  from assms have "d = \<lparr>paragraphs = generated_paragraphs (clock w)\<rparr>"
    by (simp add: written_document_eq split: if_splits)
  then show ?thesis
    by (simp only: headings_generated)
qed

theorem generate_doc_headings_witness:
  "written_document ''out.docx'' example_world
     = Some \<lparr>paragraphs = generated_paragraphs example_clock\<rparr>
   \<and> map snd (headings \<lparr>paragraphs = generated_paragraphs example_clock\<rparr>)
     = [0, 1, 1, 1, 1, 1, 1, 1, 1, 1, 1, 1]"
proof -
  have h: "written_document ''out.docx'' example_world
             = Some \<lparr>paragraphs = generated_paragraphs example_clock\<rparr>"
    by (simp add: written_document_eq example_world_def)
  from generate_doc_headings [OF h] show ?thesis
    using h by simp
qed

text \<open>
  The count of ten level-1 headings fails: the run on \<open>example_world\<close> succeeds, and the
  levels of its headings are not one 0 followed by ten 1s.
\<close>

theorem ten_level_1_headings_counterexample:
  "written_document ''out.docx'' example_world \<noteq> None
   \<and> map snd (headings (the (written_document ''out.docx'' example_world)))
       \<noteq> [0, 1, 1, 1, 1, 1, 1, 1, 1, 1, 1]"
  by (simp add: written_document_eq example_world_def headings_generated)

text \<open>
  C7. In the document written by \<open>generate_doc\<close>, the bulleted and numbered list blocks
  are exactly the item lists that the generator passes to \<open>add_bullets\<close> and
  \<open>add_numbered\<close>, block by block and item by item in the same order; the section
  \<open>2. Scope & Objectives\<close> consists of one bulleted list of exactly four items, the first
  being "Integrate SAM core components for promptable segmentation".
\<close>

theorem generate_doc_list_items:
  assumes "written_document output_path w = Some d"
  shows "filter is_list (blocks d)
           = List.map_filter list_argument (generate_doc_statements (clock w))
    \<and> section_blocks ''2. Scope & Objectives'' (blocks d)
           = [BulletList
                [''Integrate SAM core components for promptable segmentation'',
                 ''Provide automatic mask generation utility'',
                 ''Export model to ONNX and demo browser inference'',
                 ''Offer notebooks for common usage patterns'']]"
proof -
  from assms have "d = \<lparr>paragraphs = generated_paragraphs (clock w)\<rparr>"
    by (simp add: written_document_eq split: if_splits)
  then show ?thesis
    by (simp only: list_blocks_generated scope_generated simp_thms)
qed

theorem generate_doc_list_items_witness:
  "written_document ''out.docx'' example_world
     = Some \<lparr>paragraphs = generated_paragraphs example_clock\<rparr>
   \<and> map (\<lambda>b. case b of BulletList items \<Rightarrow> length items | NumberedList items \<Rightarrow> length items
                | _ \<Rightarrow> 0)
       (filter is_list (blocks \<lparr>paragraphs = generated_paragraphs example_clock\<rparr>))
     = [4, 4, 5, 9, 3, 5, 4, 4, 3]"
proof -
  have h: "written_document ''out.docx'' example_world
             = Some \<lparr>paragraphs = generated_paragraphs example_clock\<rparr>"
    by (simp add: written_document_eq example_world_def)
  have c: "clock example_world = example_clock"
    by (simp add: example_world_def)
  from generate_doc_list_items [OF h] show ?thesis
    using h by (simp add: c generate_doc_statements_def)
qed

text \<open>
  C9. For any two successful runs of \<open>generate_doc\<close>, whatever their paths and clocks,
  the written documents have the same number of paragraphs and agree at every position
  but the second, which holds the italic paragraph \<open>Generated: ...\<close> with the reading of
  the clock of its own run.
\<close>

theorem generate_doc_differs_in_timestamp_only:
  assumes "written_document path1 w1 = Some d1"
    and "written_document path2 w2 = Some d2"
  shows "length (paragraphs d1) = length (paragraphs d2)
    \<and> (\<forall>i < length (paragraphs d1). i \<noteq> 1 \<longrightarrow> paragraphs d1 ! i = paragraphs d2 ! i)
    \<and> paragraphs d1 ! 1 =
        \<lparr>par_runs = [\<lparr>run_text = ''Generated: '' @ strftime (clock w1) ''%Y-%m-%d %H:%M'',
                       run_bold = Some False, run_italic = Some True\<rparr>],
         par_style = None, par_alignment = None\<rparr>
    \<and> paragraphs d2 ! 1 =
        \<lparr>par_runs = [\<lparr>run_text = ''Generated: '' @ strftime (clock w2) ''%Y-%m-%d %H:%M'',
                       run_bold = Some False, run_italic = Some True\<rparr>],
         par_style = None, par_alignment = None\<rparr>"
proof -
  from assms(1) have d1: "paragraphs d1 = generated_paragraphs (clock w1)"
    by (auto simp add: written_document_eq split: if_splits)
  from assms(2) have d2: "paragraphs d2 = generated_paragraphs (clock w2)"
    by (auto simp add: written_document_eq split: if_splits)
  have "\<And>i. i \<noteq> 1 \<Longrightarrow>
      generated_paragraphs (clock w1) ! i = generated_paragraphs (clock w2) ! i"
    using generated_paragraphs_update [of "clock w1" "clock w2"] nth_list_update_neq
    by metis
  then have others: "\<forall>i < length (paragraphs d1). i \<noteq> 1 \<longrightarrow>
      paragraphs d1 ! i = paragraphs d2 ! i"
    unfolding d1 d2 by blast
  have len: "length (paragraphs d1) = length (paragraphs d2)"
    unfolding d1 d2 length_generated_paragraphs by (rule refl)
  from len others show ?thesis
    unfolding d1 d2 generated_paragraphs_nth_1 by blast
qed

theorem generate_doc_differs_in_timestamp_only_witness:
  "written_document ''a.docx'' example_world
     = Some \<lparr>paragraphs = generated_paragraphs example_clock\<rparr>
   \<and> written_document ''b.docx'' later_world
     = Some \<lparr>paragraphs = generated_paragraphs later_clock\<rparr>
   \<and> length (generated_paragraphs example_clock) = length (generated_paragraphs later_clock)
   \<and> generated_paragraphs example_clock ! 0 = generated_paragraphs later_clock ! 0
   \<and> paragraph_text (generated_paragraphs example_clock ! 1) = ''Generated: 2025-03-09 14:05''
   \<and> paragraph_text (generated_paragraphs later_clock ! 1) = ''Generated: 2025-03-09 14:06''"
proof -
  let ?d1 = "\<lparr>paragraphs = generated_paragraphs example_clock\<rparr>"
  let ?d2 = "\<lparr>paragraphs = generated_paragraphs later_clock\<rparr>"
  have h1: "written_document ''a.docx'' example_world = Some ?d1"
    by (simp add: written_document_eq example_world_def)
  have h2: "written_document ''b.docx'' later_world = Some ?d2"
    by (simp add: written_document_eq example_world_def later_world_def)
  have c1: "clock example_world = example_clock" and c2: "clock later_world = later_clock"
    by (simp_all add: example_world_def later_world_def)
  note t = generate_doc_differs_in_timestamp_only [OF h1 h2]
  from t have len: "length (paragraphs ?d1) = length (paragraphs ?d2)"
    by (rule conjunct1)
  from t have "\<forall>i < length (paragraphs ?d1). i \<noteq> 1 \<longrightarrow> paragraphs ?d1 ! i = paragraphs ?d2 ! i"
    by (elim conjE)
  moreover have "0 < length (paragraphs ?d1)"
    by (simp add: length_generated_paragraphs)
  ultimately have zero: "paragraphs ?d1 ! 0 = paragraphs ?d2 ! 0"
    by auto
  from t have "paragraphs ?d1 ! 1 =
        \<lparr>par_runs = [\<lparr>run_text = ''Generated: '' @ strftime (clock example_world) ''%Y-%m-%d %H:%M'',
                       run_bold = Some False, run_italic = Some True\<rparr>],
         par_style = None, par_alignment = None\<rparr>"
    by (elim conjE)
  then have "paragraph_text (paragraphs ?d1 ! 1) = ''Generated: 2025-03-09 14:05''"
    unfolding c1 strftime_example_clock by (simp add: paragraph_text_def)
  moreover from t have "paragraphs ?d2 ! 1 =
        \<lparr>par_runs = [\<lparr>run_text = ''Generated: '' @ strftime (clock later_world) ''%Y-%m-%d %H:%M'',
                       run_bold = Some False, run_italic = Some True\<rparr>],
         par_style = None, par_alignment = None\<rparr>"
    by (elim conjE)
  then have "paragraph_text (paragraphs ?d2 ! 1) = ''Generated: 2025-03-09 14:06''"
    unfolding c2 strftime_later_clock by (simp add: paragraph_text_def)
  ultimately show ?thesis
    using h1 h2 len zero by simp
qed


section \<open>Running the module\<close>

text \<open>
  The output path is the directory part of \<open>__file__\<close> joined with the fixed file name:
  its last component is the file name, its directory part is that of \<open>__file__\<close>, and it
  is absolute when \<open>__file__\<close> is.
\<close>

lemma rev_dropWhile_takeWhile:
  "rev (dropWhile P (rev xs)) @ rev (takeWhile P (rev xs)) = xs"
proof -
  have "rev (takeWhile P (rev xs) @ dropWhile P (rev xs)) = xs"
    by simp
  then show ?thesis
    by (simp only: rev_append)
qed

lemma up_to_last_slash_split:
  "up_to_last_slash p @ os_path_basename p = p"
  unfolding up_to_last_slash_def os_path_basename_def
  by (rule rev_dropWhile_takeWhile)

lemma rstrip_slashes_prefix:
  "rstrip_slashes p @ rev (takeWhile (\<lambda>c. c = CHR ''/'') (rev p)) = p"
  unfolding rstrip_slashes_def
  by (rule rev_dropWhile_takeWhile)

lemma rstrip_slashes_nonempty:
  assumes "xs \<noteq> replicate (length xs) CHR ''/''"
  shows "rstrip_slashes xs \<noteq> [] \<and> last (rstrip_slashes xs) \<noteq> CHR ''/''"
proof -
  have "\<not> (\<forall>x\<in>set xs. x = CHR ''/'')"
    using assms replicate_length_same [of xs "CHR ''/''"] by auto
  then have ne: "dropWhile (\<lambda>c. c = CHR ''/'') (rev xs) \<noteq> []"
    by (simp add: dropWhile_eq_Nil_conv)
  then have "hd (dropWhile (\<lambda>c. c = CHR ''/'') (rev xs)) \<noteq> CHR ''/''"
    using hd_dropWhile [of "\<lambda>c. c = CHR ''/''" "rev xs"] by simp
  with ne show ?thesis
    by (simp add: rstrip_slashes_def last_rev)
qed

lemma os_path_dirname_shape:
  "os_path_dirname p = replicate (length (os_path_dirname p)) CHR ''/''
   \<or> (os_path_dirname p \<noteq> [] \<and> last (os_path_dirname p) \<noteq> CHR ''/'')"
proof (cases "up_to_last_slash p \<noteq> [] \<and>
    up_to_last_slash p \<noteq> replicate (length (up_to_last_slash p)) CHR ''/''")
  case True
  then have "os_path_dirname p = rstrip_slashes (up_to_last_slash p)"
    by (simp add: os_path_dirname_def Let_def)
  with True rstrip_slashes_nonempty [of "up_to_last_slash p"] show ?thesis
    by simp
next
  case False
  then have eq: "os_path_dirname p = up_to_last_slash p"
    by (auto simp add: os_path_dirname_def Let_def)
  from False have "up_to_last_slash p = replicate (length (up_to_last_slash p)) CHR ''/''"
    by (cases "up_to_last_slash p = []") simp_all
  with eq show ?thesis
    by simp
qed


lemma OUTPUT_NAME_no_slash: "CHR ''/'' \<notin> set OUTPUT_NAME \<and> OUTPUT_NAME \<noteq> []"
  by (simp add: OUTPUT_NAME_def)

lemma os_path_join_name:
  assumes "CHR ''/'' \<notin> set name"
  shows "os_path_join a name =
           (if a = [] \<or> last a = CHR ''/'' then a @ name else (a @ ''/'') @ name)"
proof -
  from assms have "take 1 name \<noteq> ''/''"
    by (cases name) auto
  then show ?thesis
    by (simp add: os_path_join_def)
qed

lemma split_at_name:
  assumes "CHR ''/'' \<notin> set name" and "x = [] \<or> last x = CHR ''/''"
  shows "up_to_last_slash (x @ name) = x \<and> os_path_basename (x @ name) = name"
proof -
  have keep: "dropWhile (\<lambda>c. c \<noteq> CHR ''/'') (rev x) = rev x"
    using assms(2) by (auto simp add: dropWhile_eq_self_iff hd_rev)
  have stop: "takeWhile (\<lambda>c. c \<noteq> CHR ''/'') (rev x) = []"
    using assms(2) by (auto simp add: takeWhile_eq_Nil_iff hd_rev)
  have "dropWhile (\<lambda>c. c \<noteq> CHR ''/'') (rev name @ rev x)
          = dropWhile (\<lambda>c. c \<noteq> CHR ''/'') (rev x)"
    by (rule dropWhile_append2) (use assms(1) in auto)
  with keep have "dropWhile (\<lambda>c. c \<noteq> CHR ''/'') (rev name @ rev x) = rev x"
    by simp
  moreover have "takeWhile (\<lambda>c. c \<noteq> CHR ''/'') (rev name @ rev x)
          = rev name @ takeWhile (\<lambda>c. c \<noteq> CHR ''/'') (rev x)"
    by (rule takeWhile_append2) (use assms(1) in auto)
  with stop have "takeWhile (\<lambda>c. c \<noteq> CHR ''/'') (rev name @ rev x) = rev name"
    by simp
  ultimately show ?thesis
    by (simp add: up_to_last_slash_def os_path_basename_def)
qed

lemma rstrip_slashes_snoc:
  assumes "d \<noteq> []" and "last d \<noteq> CHR ''/''"
  shows "rstrip_slashes (d @ ''/'') = d"
proof -
  have "dropWhile (\<lambda>c. c = CHR ''/'') (rev d) = rev d"
    using assms by (simp add: dropWhile_eq_self_iff hd_rev)
  then show ?thesis
    by (simp add: rstrip_slashes_def)
qed

lemma not_all_slashes_snoc:
  assumes "d \<noteq> []" and "last d \<noteq> CHR ''/''"
  shows "d @ ''/'' \<noteq> replicate (length (d @ ''/'')) CHR ''/''"
proof
  assume "d @ ''/'' = replicate (length (d @ ''/'')) CHR ''/''"
  then have "set (d @ ''/'') \<subseteq> {CHR ''/''}"
    by (metis set_replicate_conv_if empty_subsetI subset_refl)
  moreover have "last d \<in> set d"
    using assms(1) by simp
  ultimately show False
    using assms(2) by auto
qed

lemma os_path_dirname_of_split:
  assumes "CHR ''/'' \<notin> set name" and "x = [] \<or> last x = CHR ''/''"
  shows "os_path_dirname (x @ name) =
           (if x \<noteq> [] \<and> x \<noteq> replicate (length x) CHR ''/'' then rstrip_slashes x else x)"
  using split_at_name [OF assms] by (simp add: os_path_dirname_def Let_def)

lemma out_path_split:
  "os_path_basename (out_path file) = OUTPUT_NAME
   \<and> os_path_dirname (out_path file) = os_path_dirname file"
proof -
  let ?d = "os_path_dirname file"
  have ns: "CHR ''/'' \<notin> set OUTPUT_NAME"
    using OUTPUT_NAME_no_slash by simp
  show ?thesis
  proof (cases "?d = [] \<or> last ?d = CHR ''/''")
    case True
    then have o: "out_path file = ?d @ OUTPUT_NAME"
      by (simp add: out_path_def os_path_join_name [OF ns])
    from True os_path_dirname_shape [of "file"]
    have rep: "?d = replicate (length ?d) CHR ''/''"
      by auto
    have "os_path_dirname (?d @ OUTPUT_NAME) = ?d"
      using rep by (simp add: os_path_dirname_of_split [OF ns True])
    with o split_at_name [OF ns True] show ?thesis
      by simp
  next
    case False
    then have ne: "?d \<noteq> []" and l: "last ?d \<noteq> CHR ''/''"
      by simp_all
    from False have o: "out_path file = (?d @ ''/'') @ OUTPUT_NAME"
      by (simp add: out_path_def os_path_join_name [OF ns])
    have x: "?d @ ''/'' = [] \<or> last (?d @ ''/'') = CHR ''/''"
      by simp
    have "os_path_dirname ((?d @ ''/'') @ OUTPUT_NAME) = ?d"
      using not_all_slashes_snoc [OF ne l] rstrip_slashes_snoc [OF ne l]
      by (simp only: os_path_dirname_of_split [OF ns x] if_True simp_thms append_is_Nil_conv
          not_Cons_self2 list.distinct)
    with o split_at_name [OF ns x] show ?thesis
      by simp
  qed
qed


lemma os_path_basename_no_slash: "CHR ''/'' \<notin> set (os_path_basename p)"
proof
  assume "CHR ''/'' \<in> set (os_path_basename p)"
  then have "CHR ''/'' \<in> set (takeWhile (\<lambda>c. c \<noteq> CHR ''/'') (rev p))"
    by (simp add: os_path_basename_def)
  then show False
    using set_takeWhileD by fastforce
qed

lemma os_path_dirname_isabs:
  assumes "os_path_isabs p"
  shows "os_path_dirname p \<noteq> [] \<and> hd (os_path_dirname p) = CHR ''/''"
proof -
  let ?h = "up_to_last_slash p"
  from assms obtain rest where p: "p = CHR ''/'' # rest"
    by (cases p) (auto simp add: os_path_isabs_def)
  have split: "?h @ os_path_basename p = p"
    by (rule up_to_last_slash_split)
  have h_ne: "?h \<noteq> []"
  proof
    assume "?h = []"
    with split have "os_path_basename p = p" by simp
    with os_path_basename_no_slash [of p] p show False by auto
  qed
  with split p have h_hd: "hd ?h = CHR ''/''"
    by (metis hd_append2 list.sel(1))
  show ?thesis
  proof (cases "?h \<noteq> replicate (length ?h) CHR ''/''")
    case True
    with h_ne have d: "os_path_dirname p = rstrip_slashes ?h"
      by (simp add: os_path_dirname_def Let_def)
    from True rstrip_slashes_nonempty have ne: "rstrip_slashes ?h \<noteq> []"
      by blast
    with rstrip_slashes_prefix [of ?h] have "hd (rstrip_slashes ?h) = hd ?h"
      by (metis hd_append2)
    with d ne h_hd show ?thesis by simp
  next
    case False
    then have "os_path_dirname p = ?h"
      by (auto simp add: os_path_dirname_def Let_def)
    with h_ne h_hd show ?thesis by simp
  qed
qed

lemma out_path_isabs:
  assumes "os_path_isabs file"
  shows "os_path_isabs (out_path file)"
proof -
  from os_path_dirname_isabs [OF assms]
  obtain rest where d: "os_path_dirname file = CHR ''/'' # rest"
    by (cases "os_path_dirname file") auto
  have "CHR ''/'' \<notin> set OUTPUT_NAME"
    using OUTPUT_NAME_no_slash by simp
  from os_path_join_name [OF this, of "os_path_dirname file"] d show ?thesis
    by (simp add: out_path_def os_path_isabs_def)
qed


lemma out_path_absolute_example:
  "out_path ''/home/user/SAM/generate_docs.py'' = ''/home/user/SAM/SAM_Project_Documentation.docx''"
  by (simp add: out_path_def os_path_dirname_def os_path_join_def up_to_last_slash_def
      rstrip_slashes_def OUTPUT_NAME_def Let_def)

lemma out_path_relative_example:
  "out_path ''generate_docs.py'' = ''SAM_Project_Documentation.docx''"
  by (simp add: out_path_def os_path_dirname_def os_path_join_def up_to_last_slash_def
      rstrip_slashes_def OUTPUT_NAME_def Let_def)

lemma main_block_eq:
  "main_block file w =
     (if writable w (out_path file)
      then (Inr (),
            w\<lparr>files := (files w)(out_path file := written_document (out_path file) w),
              stdout := stdout w @ [''Wrote documentation to: '' @ out_path file]\<rparr>)
      else (Inl (OSError (out_path file)), w))"
  by (simp add: main_block_def generate_doc_eq written_document_eq print_def)

text \<open>
  C3. If the imports of the document-authoring library raise, running the module ends
  with \<open>SystemExit\<close> carrying the message about the missing dependency, and the world is
  as before: no document was built, no file written and nothing printed.
\<close>

theorem run_module_missing_dependency:
  "run_module Import_Raises name file w =
     (Inl (SystemExit
        ''Missing dependency 'python-docx'. Please install it: pip install python-docx''), w)"
  by (simp add: run_module_def)

text \<open>
  C4. Run as \<open>__main__\<close> with the library present and the output path writable, the
  module writes the generated document to the fixed file name
  \<open>SAM_Project_Documentation.docx\<close> in the directory part of \<open>__file__\<close>, changes no other
  file, and prints \<open>Wrote documentation to: \<close> followed by that same path; the path is
  absolute whenever \<open>__file__\<close> is.
\<close>

theorem run_module_writes_and_prints:
  assumes "writable w (out_path file)"
  shows "run_module Imported ''__main__'' file w =
           (Inr (),
            w\<lparr>files := (files w)(out_path file := written_document (out_path file) w),
              stdout := stdout w @ [''Wrote documentation to: '' @ out_path file]\<rparr>)
    \<and> written_document (out_path file) w \<noteq> None
    \<and> os_path_basename (out_path file) = ''SAM_Project_Documentation.docx''
    \<and> os_path_dirname (out_path file) = os_path_dirname file
    \<and> (os_path_isabs file \<longrightarrow> os_path_isabs (out_path file))"
proof -
  have "run_module Imported ''__main__'' file w = main_block file w"
    by (simp add: run_module_def)
  with assms have "run_module Imported ''__main__'' file w =
           (Inr (),
            w\<lparr>files := (files w)(out_path file := written_document (out_path file) w),
              stdout := stdout w @ [''Wrote documentation to: '' @ out_path file]\<rparr>)"
    by (simp only: main_block_eq if_True)
  moreover from assms have "written_document (out_path file) w \<noteq> None"
    by (simp add: written_document_eq)
  moreover have "os_path_basename (out_path file) = ''SAM_Project_Documentation.docx''"
    using out_path_split [of "file"] by (simp add: OUTPUT_NAME_def)
  moreover have "os_path_dirname (out_path file) = os_path_dirname file"
    using out_path_split [of "file"] by simp
  moreover have "os_path_isabs file \<longrightarrow> os_path_isabs (out_path file)"
    using out_path_isabs by blast
  ultimately show ?thesis
    by blast
qed

theorem run_module_writes_and_prints_witness:
  "writable example_world (out_path ''/home/user/SAM/generate_docs.py'')
   \<and> out_path ''/home/user/SAM/generate_docs.py''
       = ''/home/user/SAM/SAM_Project_Documentation.docx''
   \<and> fst (run_module Imported ''__main__'' ''/home/user/SAM/generate_docs.py'' example_world)
       = Inr ()
   \<and> stdout (snd (run_module Imported ''__main__'' ''/home/user/SAM/generate_docs.py''
        example_world))
       = [''Wrote documentation to: /home/user/SAM/SAM_Project_Documentation.docx'']
   \<and> os_path_isabs ''/home/user/SAM/generate_docs.py''
   \<and> os_path_isabs (out_path ''/home/user/SAM/generate_docs.py'')"
proof -
  have h: "writable example_world (out_path ''/home/user/SAM/generate_docs.py'')"
    by (simp add: example_world_def)
  have a: "os_path_isabs ''/home/user/SAM/generate_docs.py''"
    by (simp add: os_path_isabs_def)
  have s: "stdout example_world = []"
    by (simp add: example_world_def)
  from run_module_writes_and_prints [OF h] show ?thesis
    using h a s by (simp add: out_path_absolute_example)
qed

text \<open>
  The printed path need not be absolute: with the relative \<open>__file__\<close>
  \<open>generate_docs.py\<close> the run succeeds, writes \<open>SAM_Project_Documentation.docx\<close> and prints
  that relative path.
\<close>

theorem run_module_relative_path_counterexample:
  "fst (run_module Imported ''__main__'' ''generate_docs.py'' example_world) = Inr ()
   \<and> stdout (snd (run_module Imported ''__main__'' ''generate_docs.py'' example_world))
       = [''Wrote documentation to: SAM_Project_Documentation.docx'']
   \<and> dom (files (snd (run_module Imported ''__main__'' ''generate_docs.py'' example_world)))
       = {''SAM_Project_Documentation.docx''}
   \<and> \<not> os_path_isabs ''SAM_Project_Documentation.docx''"
  by (simp add: run_module_def main_block_eq out_path_relative_example written_document_eq
      example_world_def os_path_isabs_def)

end
